theory Spec2Isabelle
  imports Main "HOL-Library.Word"
begin

unbundle bit_operations_syntax

section \<open>The DWC OTG host scheduler: queue heads and queue transfer descriptors\<close>

text \<open>
  A shallow embedding of \<^verbatim>\<open>drivers/usb/dwc_otg/dwc_otg_hcd_queue.c\<close>.
  Every C function of that file that touches the schedule is a HOL function of the same
  name over explicit state: the fields of \<^verbatim>\<open>dwc_otg_hcd_t\<close> that the file reads or
  writes form the record \<open>dwc_otg_hcd\<close>, a queue head is the record \<open>dwc_otg_qh\<close>.
  The intrusive \<^verbatim>\<open>list_head\<close> chains are lists of queue-head addresses; a queue head's
  own link node \<^verbatim>\<open>qh_list_entry\<close> is non-empty exactly when its address sits in one of
  the five schedule lists. Spin locks are not modelled.

  Unsigned 16-bit fields are \<open>16 word\<close> (arithmetic wraps, as in C); the \<^verbatim>\<open>int\<close>
  counters are \<open>int\<close> (C leaves signed overflow undefined, so the model follows the
  mathematical value). A division by zero does not return: it is the fault
  \<open>DivideByZero\<close>.
\<close>

subsection \<open>Types\<close>

type_synonym u8 = "8 word"
type_synonym u16 = "16 word"
type_synonym u32 = "32 word"
type_synonym addr = nat

datatype ep_type =
    USB_ENDPOINT_XFER_CONTROL
  | USB_ENDPOINT_XFER_ISOC
  | USB_ENDPOINT_XFER_BULK
  | USB_ENDPOINT_XFER_INT

datatype pipe_type = PIPE_ISOCHRONOUS | PIPE_INTERRUPT | PIPE_CONTROL | PIPE_BULK

datatype usb_device_speed =
    USB_SPEED_UNKNOWN | USB_SPEED_LOW | USB_SPEED_FULL | USB_SPEED_HIGH | USB_SPEED_VARIABLE

datatype hprt0_prtspd =
    DWC_HPRT0_PRTSPD_HIGH_SPEED | DWC_HPRT0_PRTSPD_FULL_SPEED | DWC_HPRT0_PRTSPD_LOW_SPEED

datatype speed_param = DWC_SPEED_PARAM_HIGH | DWC_SPEED_PARAM_FULL

datatype hc_pid = DWC_OTG_HC_PID_DATA0 | DWC_OTG_HC_PID_DATA2 | DWC_OTG_HC_PID_DATA1
  | DWC_OTG_HC_PID_MDATA

datatype fault = DivideByZero

text \<open>The five schedule lists of the HCD, and a position in one of them: either the
  list's own head node or the link node of a queue head.\<close>

datatype sched_list =
    NonPeriodicInactive | NonPeriodicActive | PeriodicInactive | PeriodicReady | PeriodicQueued

datatype list_pos = ListHead sched_list | QhEntry addr

text \<open>What \<^verbatim>\<open>dwc_otg_hcd_qh_init\<close> reads of a \<^verbatim>\<open>struct urb\<close> and its device:
  \<open>tt_hub_devnum\<close> is \<open>None\<close> when \<^verbatim>\<open>urb->dev->tt\<close> is \<^verbatim>\<open>NULL\<close>, \<open>maxpacket\<close> is the
  value of \<^verbatim>\<open>usb_maxpacket\<close> for the pipe.\<close>

record urb =
  pipetype :: pipe_type
  pipein :: bool
  dev_speed :: usb_device_speed
  tt_hub_devnum :: "int option"
  urb_interval :: int
  maxpacket :: u16

record dwc_otg_qh =
  qh_addr :: addr
  ep_type :: ep_type
  ep_is_in :: u8
  maxp :: u16
  data_toggle :: hc_pid
  qtd_list :: "addr list"
  channel :: "addr option"
  do_split :: u8
  usecs :: u16
  interval :: u16
  sched_frame :: u16
  start_split_frame :: u16
  dw_align_buf :: "addr option"

record dwc_otg_core_params =
  host_channels :: int
  max_transfer_size :: u32
  speed :: speed_param

text \<open>\<open>hprt0\<close> and \<open>hfnum\<close> are the values the two register reads of the file return:
  the port speed field of \<^verbatim>\<open>HPRT0\<close> and the frame number of
  \<^verbatim>\<open>dwc_otg_hcd_get_frame_number\<close>.\<close>

record dwc_otg_core_if =
  core_params :: dwc_otg_core_params
  hprt0 :: hprt0_prtspd
  hfnum :: u16

text \<open>The three \<open>bandwidth_*\<close> fields are those of the \<^verbatim>\<open>usb_bus\<close> reached through
  \<^verbatim>\<open>hcd_to_bus\<close>.\<close>

record dwc_otg_hcd =
  core_if :: dwc_otg_core_if
  non_periodic_sched_inactive :: "addr list"
  non_periodic_sched_active :: "addr list"
  non_periodic_qh_ptr :: list_pos
  periodic_sched_inactive :: "addr list"
  periodic_sched_ready :: "addr list"
  periodic_sched_queued :: "addr list"
  periodic_usecs :: u16
  non_periodic_channels :: int
  periodic_channels :: int
  frame_number :: u16
  bandwidth_allocated :: int
  bandwidth_int_reqs :: int
  bandwidth_isoc_reqs :: int

text \<open>
  The inline helpers and macros of \<^verbatim>\<open>dwc_otg_hcd.h\<close> and the kernel's bus-time
  function are used by the file but declared elsewhere. The model takes them as
  parameters: every function below that calls one of them receives this record.
  \<open>bus_time_usecs\<close> stands for \<^verbatim>\<open>NS_TO_US(usb_calc_bus_time(speed, is_in, is_isoc, bytecount))\<close>
  as stored into the 16-bit \<^verbatim>\<open>usecs\<close>.
\<close>

record hcd_header =
  dwc_frame_num_inc :: "u16 \<Rightarrow> u16 \<Rightarrow> u16"
  dwc_frame_num_le :: "u16 \<Rightarrow> u16 \<Rightarrow> bool"
  dwc_hb_mult :: "u16 \<Rightarrow> u32"
  dwc_max_packet :: "u16 \<Rightarrow> u32"
  bus_time_usecs :: "usb_device_speed \<Rightarrow> bool \<Rightarrow> bool \<Rightarrow> u32 \<Rightarrow> u16"

definition ENOSPC :: int where
  "ENOSPC = 28"

definition SCHEDULE_SLOP :: u16 where
  "SCHEDULE_SLOP = 10"

subsection \<open>List primitives\<close>

definition sched_entries :: "dwc_otg_hcd \<Rightarrow> addr list" where
  "sched_entries hcd =
     non_periodic_sched_inactive hcd @ non_periodic_sched_active hcd @
     periodic_sched_inactive hcd @ periodic_sched_ready hcd @ periodic_sched_queued hcd"

text \<open>\<^verbatim>\<open>!list_empty(&qh->qh_list_entry)\<close>: the queue head is linked into a schedule.\<close>

definition qh_linked :: "dwc_otg_hcd \<Rightarrow> dwc_otg_qh \<Rightarrow> bool" where
  "qh_linked hcd qh = (qh_addr qh \<in> set (sched_entries hcd))"

text \<open>\<^verbatim>\<open>list_del_init(&qh->qh_list_entry)\<close>: unlink the node from the list that holds it.\<close>

definition list_del_init :: "addr \<Rightarrow> dwc_otg_hcd \<Rightarrow> dwc_otg_hcd" where
  "list_del_init a hcd = hcd
     \<lparr> non_periodic_sched_inactive := removeAll a (non_periodic_sched_inactive hcd),
       non_periodic_sched_active := removeAll a (non_periodic_sched_active hcd),
       periodic_sched_inactive := removeAll a (periodic_sched_inactive hcd),
       periodic_sched_ready := removeAll a (periodic_sched_ready hcd),
       periodic_sched_queued := removeAll a (periodic_sched_queued hcd) \<rparr>"

text \<open>\<^verbatim>\<open>list_add_tail(entry, head)\<close> appends at the end of the list, \<^verbatim>\<open>list_add\<close>
  inserts right after the head node, \<^verbatim>\<open>list_move\<close> is \<^verbatim>\<open>list_del\<close> followed by
  \<^verbatim>\<open>list_add\<close>.\<close>

definition list_add_tail :: "addr \<Rightarrow> sched_list \<Rightarrow> dwc_otg_hcd \<Rightarrow> dwc_otg_hcd" where
  "list_add_tail a l hcd =
     (case l of
        NonPeriodicInactive \<Rightarrow>
          hcd \<lparr> non_periodic_sched_inactive := non_periodic_sched_inactive hcd @ [a] \<rparr>
      | NonPeriodicActive \<Rightarrow>
          hcd \<lparr> non_periodic_sched_active := non_periodic_sched_active hcd @ [a] \<rparr>
      | PeriodicInactive \<Rightarrow>
          hcd \<lparr> periodic_sched_inactive := periodic_sched_inactive hcd @ [a] \<rparr>
      | PeriodicReady \<Rightarrow>
          hcd \<lparr> periodic_sched_ready := periodic_sched_ready hcd @ [a] \<rparr>
      | PeriodicQueued \<Rightarrow>
          hcd \<lparr> periodic_sched_queued := periodic_sched_queued hcd @ [a] \<rparr>)"

definition list_add :: "addr \<Rightarrow> sched_list \<Rightarrow> dwc_otg_hcd \<Rightarrow> dwc_otg_hcd" where
  "list_add a l hcd =
     (case l of
        NonPeriodicInactive \<Rightarrow>
          hcd \<lparr> non_periodic_sched_inactive := a # non_periodic_sched_inactive hcd \<rparr>
      | NonPeriodicActive \<Rightarrow>
          hcd \<lparr> non_periodic_sched_active := a # non_periodic_sched_active hcd \<rparr>
      | PeriodicInactive \<Rightarrow>
          hcd \<lparr> periodic_sched_inactive := a # periodic_sched_inactive hcd \<rparr>
      | PeriodicReady \<Rightarrow>
          hcd \<lparr> periodic_sched_ready := a # periodic_sched_ready hcd \<rparr>
      | PeriodicQueued \<Rightarrow>
          hcd \<lparr> periodic_sched_queued := a # periodic_sched_queued hcd \<rparr>)"

definition list_move :: "addr \<Rightarrow> sched_list \<Rightarrow> dwc_otg_hcd \<Rightarrow> dwc_otg_hcd" where
  "list_move a l hcd = list_add a l (list_del_init a hcd)"

text \<open>The node after \<open>a\<close> in a list whose head node is \<open>h\<close>; the last entry's
  successor is the head node.\<close>

fun next_after :: "addr \<Rightarrow> list_pos \<Rightarrow> addr list \<Rightarrow> list_pos" where
  "next_after a h [] = h"
| "next_after a h (x # xs) =
     (if x = a then (case xs of [] \<Rightarrow> h | y # _ \<Rightarrow> QhEntry y) else next_after a h xs)"

definition list_next :: "dwc_otg_hcd \<Rightarrow> addr \<Rightarrow> list_pos" where
  "list_next hcd a =
     (if a \<in> set (non_periodic_sched_inactive hcd)
        then next_after a (ListHead NonPeriodicInactive) (non_periodic_sched_inactive hcd)
      else if a \<in> set (non_periodic_sched_active hcd)
        then next_after a (ListHead NonPeriodicActive) (non_periodic_sched_active hcd)
      else if a \<in> set (periodic_sched_inactive hcd)
        then next_after a (ListHead PeriodicInactive) (periodic_sched_inactive hcd)
      else if a \<in> set (periodic_sched_ready hcd)
        then next_after a (ListHead PeriodicReady) (periodic_sched_ready hcd)
      else if a \<in> set (periodic_sched_queued hcd)
        then next_after a (ListHead PeriodicQueued) (periodic_sched_queued hcd)
      else QhEntry a)"

subsection \<open>Queue head creation\<close>

text \<open>Modelled from the spec: the macro \<^verbatim>\<open>dwc_qh_is_non_per\<close> of the header is not
  among the sources; a non-periodic transfer is a control or bulk transfer, a periodic
  one an interrupt or isochronous transfer.\<close>

definition dwc_qh_is_non_per :: "dwc_otg_qh \<Rightarrow> bool" where
  "dwc_qh_is_non_per qh =
     (ep_type qh = USB_ENDPOINT_XFER_BULK \<or> ep_type qh = USB_ENDPOINT_XFER_CONTROL)"

text \<open>\<^verbatim>\<open>memset (qh, 0, sizeof (dwc_otg_qh_t))\<close> followed by the two
  \<^verbatim>\<open>INIT_LIST_HEAD\<close>s, for the queue head at address \<open>a\<close>.\<close>

definition qh_zero :: "addr \<Rightarrow> dwc_otg_qh" where
  "qh_zero a =
     \<lparr> qh_addr = a, ep_type = USB_ENDPOINT_XFER_CONTROL, ep_is_in = 0, maxp = 0,
       data_toggle = DWC_OTG_HC_PID_DATA0, qtd_list = [], channel = None, do_split = 0,
       usecs = 0, interval = 0, sched_frame = 0, start_split_frame = 0,
       dw_align_buf = None \<rparr>"

definition dwc_otg_hcd_qh_init :: "hcd_header \<Rightarrow> dwc_otg_hcd \<Rightarrow> addr \<Rightarrow> urb \<Rightarrow> dwc_otg_qh" where
  "dwc_otg_hcd_qh_init h hcd a u =
     (let qh = qh_zero a;
          qh = qh \<lparr> ep_type :=
                 (case pipetype u of
                    PIPE_CONTROL \<Rightarrow> USB_ENDPOINT_XFER_CONTROL
                  | PIPE_BULK \<Rightarrow> USB_ENDPOINT_XFER_BULK
                  | PIPE_ISOCHRONOUS \<Rightarrow> USB_ENDPOINT_XFER_ISOC
                  | PIPE_INTERRUPT \<Rightarrow> USB_ENDPOINT_XFER_INT) \<rparr>;
          qh = qh \<lparr> ep_is_in := (if pipein u then 1 else 0) \<rparr>;
          qh = qh \<lparr> data_toggle := DWC_OTG_HC_PID_DATA0 \<rparr>;
          qh = qh \<lparr> maxp := maxpacket u \<rparr>;
          qh = qh \<lparr> qtd_list := [], channel := None \<rparr>;
          qh = qh \<lparr> do_split := 0 \<rparr>;
          qh = (if (dev_speed u = USB_SPEED_LOW \<or> dev_speed u = USB_SPEED_FULL) \<and>
                   (case tt_hub_devnum u of None \<Rightarrow> False | Some d \<Rightarrow> d \<noteq> 1)
                then qh \<lparr> do_split := 1 \<rparr> else qh);
          qh = (if ep_type qh = USB_ENDPOINT_XFER_INT \<or> ep_type qh = USB_ENDPOINT_XFER_ISOC
                then
                  (let bytecount = dwc_hb_mult h (maxp qh) * dwc_max_packet h (maxp qh);
                       qh = qh \<lparr> usecs := bus_time_usecs h (dev_speed u) (pipein u)
                                     (ep_type qh = USB_ENDPOINT_XFER_ISOC) bytecount \<rparr>;
                       qh = qh \<lparr> sched_frame :=
                                     dwc_frame_num_inc h (frame_number hcd) SCHEDULE_SLOP \<rparr>;
                       qh = qh \<lparr> interval := word_of_int (urb_interval u) \<rparr>
                   in if hprt0 (core_if hcd) = DWC_HPRT0_PRTSPD_HIGH_SPEED \<and>
                         (dev_speed u = USB_SPEED_LOW \<or> dev_speed u = USB_SPEED_FULL)
                      then
                        (let qh = qh \<lparr> interval := interval qh * 8 \<rparr>;
                             qh = qh \<lparr> sched_frame := sched_frame qh OR 7 \<rparr>
                         in qh \<lparr> start_split_frame := sched_frame qh \<rparr>)
                      else qh)
                else qh)
      in qh \<lparr> dw_align_buf := None \<rparr>)"

text \<open>\<open>alloc\<close> is the result of \<^verbatim>\<open>dwc_otg_hcd_qh_alloc\<close>: \<open>None\<close> for \<^verbatim>\<open>NULL\<close>.\<close>

definition dwc_otg_hcd_qh_create ::
  "hcd_header \<Rightarrow> dwc_otg_hcd \<Rightarrow> addr option \<Rightarrow> urb \<Rightarrow> dwc_otg_qh option" where
  "dwc_otg_hcd_qh_create h hcd alloc u =
     (case alloc of
        None \<Rightarrow> None
      | Some a \<Rightarrow> Some (dwc_otg_hcd_qh_init h hcd a u))"

subsection \<open>Admission\<close>

definition periodic_channel_available :: "dwc_otg_hcd \<Rightarrow> int" where
  "periodic_channel_available hcd =
     (let num_channels = host_channels (core_params (core_if hcd))
      in if periodic_channels hcd + non_periodic_channels hcd < num_channels \<and>
            periodic_channels hcd < num_channels - 1
         then 0 else - ENOSPC)"

text \<open>\<^verbatim>\<open>uint16_t max_claimed_usecs = 100 - qh->usecs\<close>: the subtraction is done on
  \<^verbatim>\<open>int\<close> and the result is cut to 16 bits by the assignment.\<close>

definition max_claimed_usecs :: "dwc_otg_hcd \<Rightarrow> dwc_otg_qh \<Rightarrow> u16" where
  "max_claimed_usecs hcd qh =
     (if speed (core_params (core_if hcd)) = DWC_SPEED_PARAM_HIGH
      then word_of_int (100 - uint (usecs qh))
      else word_of_int (900 - uint (usecs qh)))"

definition check_periodic_bandwidth :: "dwc_otg_hcd \<Rightarrow> dwc_otg_qh \<Rightarrow> int" where
  "check_periodic_bandwidth hcd qh =
     (if periodic_usecs hcd > max_claimed_usecs hcd qh then - ENOSPC else 0)"

definition check_max_xfer_size :: "hcd_header \<Rightarrow> dwc_otg_hcd \<Rightarrow> dwc_otg_qh \<Rightarrow> int" where
  "check_max_xfer_size h hcd qh =
     (let max_xfer_size = dwc_max_packet h (maxp qh) * dwc_hb_mult h (maxp qh);
          max_channel_xfer_size = max_transfer_size (core_params (core_if hcd))
      in if max_xfer_size > max_channel_xfer_size then - ENOSPC else 0)"

definition schedule_periodic ::
  "hcd_header \<Rightarrow> dwc_otg_hcd \<Rightarrow> dwc_otg_qh \<Rightarrow> fault + (int \<times> dwc_otg_hcd)" where
  "schedule_periodic h hcd qh =
     (if periodic_channel_available hcd \<noteq> 0 then Inr (periodic_channel_available hcd, hcd)
      else if check_periodic_bandwidth hcd qh \<noteq> 0
        then Inr (check_periodic_bandwidth hcd qh, hcd)
      else if check_max_xfer_size h hcd qh \<noteq> 0
        then Inr (check_max_xfer_size h hcd qh, hcd)
      else
        (let hcd = list_add_tail (qh_addr qh) PeriodicInactive hcd;
             hcd = hcd \<lparr> periodic_channels := periodic_channels hcd + 1 \<rparr>;
             hcd = hcd \<lparr> periodic_usecs := periodic_usecs hcd + usecs qh \<rparr>
         in if interval qh = 0 then Inl DivideByZero
            else
              (let hcd = hcd \<lparr> bandwidth_allocated :=
                                  bandwidth_allocated hcd + uint (usecs qh) div uint (interval qh) \<rparr>;
                   hcd = (if ep_type qh = USB_ENDPOINT_XFER_INT
                          then hcd \<lparr> bandwidth_int_reqs := bandwidth_int_reqs hcd + 1 \<rparr>
                          else hcd \<lparr> bandwidth_isoc_reqs := bandwidth_isoc_reqs hcd + 1 \<rparr>)
               in Inr (0, hcd))))"

definition dwc_otg_hcd_qh_add ::
  "hcd_header \<Rightarrow> dwc_otg_hcd \<Rightarrow> dwc_otg_qh \<Rightarrow> fault + (int \<times> dwc_otg_hcd)" where
  "dwc_otg_hcd_qh_add h hcd qh =
     (if qh_linked hcd qh then Inr (0, hcd)
      else if dwc_qh_is_non_per qh
        then Inr (0, list_add_tail (qh_addr qh) NonPeriodicInactive hcd)
      else schedule_periodic h hcd qh)"

subsection \<open>Withdrawal and deactivation\<close>

definition deschedule_periodic :: "dwc_otg_hcd \<Rightarrow> dwc_otg_qh \<Rightarrow> fault + dwc_otg_hcd" where
  "deschedule_periodic hcd qh =
     (let hcd = list_del_init (qh_addr qh) hcd;
          hcd = hcd \<lparr> periodic_channels := periodic_channels hcd - 1 \<rparr>;
          hcd = hcd \<lparr> periodic_usecs := periodic_usecs hcd - usecs qh \<rparr>
      in if interval qh = 0 then Inl DivideByZero
         else
           (let hcd = hcd \<lparr> bandwidth_allocated :=
                               bandwidth_allocated hcd - uint (usecs qh) div uint (interval qh) \<rparr>
            in if ep_type qh = USB_ENDPOINT_XFER_INT
               then Inr (hcd \<lparr> bandwidth_int_reqs := bandwidth_int_reqs hcd - 1 \<rparr>)
               else Inr (hcd \<lparr> bandwidth_isoc_reqs := bandwidth_isoc_reqs hcd - 1 \<rparr>)))"

definition dwc_otg_hcd_qh_remove :: "dwc_otg_hcd \<Rightarrow> dwc_otg_qh \<Rightarrow> fault + dwc_otg_hcd" where
  "dwc_otg_hcd_qh_remove hcd qh =
     (if \<not> qh_linked hcd qh then Inr hcd
      else if dwc_qh_is_non_per qh
        then
          (let hcd = (if non_periodic_qh_ptr hcd = QhEntry (qh_addr qh)
                      then hcd \<lparr> non_periodic_qh_ptr := list_next hcd (qh_addr qh) \<rparr>
                      else hcd)
           in Inr (list_del_init (qh_addr qh) hcd))
      else deschedule_periodic hcd qh)"

text \<open>The next scheduled frame of a periodic queue head, as the \<^verbatim>\<open>else\<close> branch of
  \<^verbatim>\<open>dwc_otg_hcd_qh_deactivate\<close> computes it before it touches the lists;
  \<open>frame\<close> is the local \<^verbatim>\<open>frame_number\<close>.\<close>

definition next_sched_frame :: "hcd_header \<Rightarrow> u16 \<Rightarrow> dwc_otg_qh \<Rightarrow> int \<Rightarrow> dwc_otg_qh" where
  "next_sched_frame h frame qh sched_next_periodic_split =
     (if do_split qh \<noteq> 0 then
        (if sched_next_periodic_split \<noteq> 0 then
           (let qh = qh \<lparr> sched_frame := frame \<rparr>
            in if dwc_frame_num_le h frame (dwc_frame_num_inc h (start_split_frame qh) 1)
               then (if ep_type qh \<noteq> USB_ENDPOINT_XFER_ISOC \<or> ep_is_in qh \<noteq> 0
                     then qh \<lparr> sched_frame := dwc_frame_num_inc h (sched_frame qh) 1 \<rparr>
                     else qh)
               else qh)
         else
           (let qh = qh \<lparr> sched_frame :=
                           dwc_frame_num_inc h (start_split_frame qh) (interval qh) \<rparr>;
                qh = (if dwc_frame_num_le h (sched_frame qh) frame
                      then qh \<lparr> sched_frame := frame \<rparr> else qh);
                qh = qh \<lparr> sched_frame := sched_frame qh OR 7 \<rparr>
            in qh \<lparr> start_split_frame := sched_frame qh \<rparr>))
      else
        (let qh = qh \<lparr> sched_frame := dwc_frame_num_inc h (sched_frame qh) (interval qh) \<rparr>
         in if dwc_frame_num_le h (sched_frame qh) frame
            then qh \<lparr> sched_frame := frame \<rparr> else qh))"

definition dwc_otg_hcd_qh_deactivate ::
  "hcd_header \<Rightarrow> dwc_otg_hcd \<Rightarrow> dwc_otg_qh \<Rightarrow> int \<Rightarrow> fault + (dwc_otg_hcd \<times> dwc_otg_qh)" where
  "dwc_otg_hcd_qh_deactivate h hcd qh sched_next_periodic_split =
     (if dwc_qh_is_non_per qh then
        (case dwc_otg_hcd_qh_remove hcd qh of
           Inl f \<Rightarrow> Inl f
         | Inr hcd \<Rightarrow>
             if qtd_list qh \<noteq> [] then
               (case dwc_otg_hcd_qh_add h hcd qh of
                  Inl f \<Rightarrow> Inl f
                | Inr (status, hcd) \<Rightarrow> Inr (hcd, qh))
             else Inr (hcd, qh))
      else
        (let frame = hfnum (core_if hcd);
             qh = next_sched_frame h frame qh sched_next_periodic_split
         in if qtd_list qh = [] then
              (case dwc_otg_hcd_qh_remove hcd qh of
                 Inl f \<Rightarrow> Inl f
               | Inr hcd \<Rightarrow> Inr (hcd, qh))
            else if sched_frame qh = frame
              then Inr (list_move (qh_addr qh) PeriodicReady hcd, qh)
            else Inr (list_move (qh_addr qh) PeriodicInactive hcd, qh)))"

subsection \<open>Queue transfer descriptors\<close>

record dwc_otg_qtd =
  qtd_addr :: addr
  qtd_urb :: urb

text \<open>The endpoint of the URB: \<open>hcpriv\<close> is the queue head the endpoint points to,
  \<open>None\<close> for \<^verbatim>\<open>NULL\<close>.\<close>

record usb_host_endpoint =
  hcpriv :: "dwc_otg_qh option"

definition dwc_otg_hcd_qtd_add ::
  "hcd_header \<Rightarrow> addr option \<Rightarrow> dwc_otg_qtd \<Rightarrow> dwc_otg_hcd \<Rightarrow> usb_host_endpoint \<Rightarrow>
     fault + (int \<times> dwc_otg_hcd \<times> usb_host_endpoint)" where
  "dwc_otg_hcd_qtd_add h alloc qtd hcd ep =
     (let retval = 0;
          qh = (case hcpriv ep of
                  None \<Rightarrow> dwc_otg_hcd_qh_create h hcd alloc (qtd_urb qtd)
                | Some q \<Rightarrow> Some q)
      in case qh of
           None \<Rightarrow> Inr (retval, hcd, ep)
         | Some q \<Rightarrow>
             (case dwc_otg_hcd_qh_add h hcd q of
                Inl f \<Rightarrow> Inl f
              | Inr (retval, hcd) \<Rightarrow>
                  if retval = 0
                  then Inr (retval, hcd,
                            ep \<lparr> hcpriv := Some (q \<lparr> qtd_list := qtd_list q @ [qtd_addr qtd] \<rparr>) \<rparr>)
                  else Inr (retval, hcd, ep \<lparr> hcpriv := Some q \<rparr>)))"

subsection \<open>Inputs for the examples\<close>

text \<open>An instance of the header parameters in which frame numbers advance by 16-bit
  addition and are compared by \<open>\<le>\<close>, the reading of the spec's
  "\<open>sched_frame + interval\<close>, clamped up to at least the current frame number". The packet
  size and multiplier are the low 11 bits and bits 11 and 12 of \<^verbatim>\<open>wMaxPacketSize\<close>.\<close>

definition plain_header :: hcd_header where
  "plain_header =
     \<lparr> dwc_frame_num_inc = (\<lambda>frame inc. frame + inc),
       dwc_frame_num_le = (\<lambda>frame1 frame2. frame1 \<le> frame2),
       dwc_hb_mult = (\<lambda>m. 1 + (ucast (drop_bit 11 m) AND 3)),
       dwc_max_packet = (\<lambda>m. ucast m AND 0x7ff),
       bus_time_usecs = (\<lambda>s is_in is_isoc bytecount. ucast bytecount) \<rparr>"

text \<open>An instance in which frame numbers live on a wheel of \<open>2 ^ 14\<close> frames, the width
  of the controller's frame counter: advancing wraps at \<open>0x3FFF\<close>, and one frame is
  before another when the second is at most half a turn ahead.\<close>

definition wheel_header :: hcd_header where
  "wheel_header =
     \<lparr> dwc_frame_num_inc = (\<lambda>frame inc. (frame + inc) AND 0x3FFF),
       dwc_frame_num_le = (\<lambda>frame1 frame2. ((frame2 - frame1) AND 0x3FFF) \<le> 0x1FFF),
       dwc_hb_mult = (\<lambda>m. 1 + (ucast (drop_bit 11 m) AND 3)),
       dwc_max_packet = (\<lambda>m. ucast m AND 0x7ff),
       bus_time_usecs = (\<lambda>s is_in is_isoc bytecount. ucast bytecount) \<rparr>"

text \<open>A high-speed controller with eight host channels at frame 100; one interrupt queue
  head (address 1, 50 usecs, interval 4) is already in the periodic schedule.\<close>

definition ex_hcd :: dwc_otg_hcd where
  "ex_hcd =
     \<lparr> core_if = \<lparr> core_params = \<lparr> host_channels = 8, max_transfer_size = 65535,
                                     speed = DWC_SPEED_PARAM_HIGH \<rparr>,
                   hprt0 = DWC_HPRT0_PRTSPD_HIGH_SPEED, hfnum = 100 \<rparr>,
       non_periodic_sched_inactive = [], non_periodic_sched_active = [],
       non_periodic_qh_ptr = ListHead NonPeriodicActive,
       periodic_sched_inactive = [1], periodic_sched_ready = [], periodic_sched_queued = [],
       periodic_usecs = 50, non_periodic_channels = 0, periodic_channels = 1,
       frame_number = 100, bandwidth_allocated = 12, bandwidth_int_reqs = 1,
       bandwidth_isoc_reqs = 0 \<rparr>"

text \<open>A second interrupt queue head, at address 2, not in the schedule, holding one QTD.\<close>

definition ex_qh :: dwc_otg_qh where
  "ex_qh =
     \<lparr> qh_addr = 2, ep_type = USB_ENDPOINT_XFER_INT, ep_is_in = 1, maxp = 64,
       data_toggle = DWC_OTG_HC_PID_DATA0, qtd_list = [7], channel = None, do_split = 0,
       usecs = 40, interval = 4, sched_frame = 100, start_split_frame = 0,
       dw_align_buf = None \<rparr>"

text \<open>An interrupt URB of a full-speed device behind a hub at address 2.\<close>

definition ex_urb :: urb where
  "ex_urb = \<lparr> pipetype = PIPE_INTERRUPT, pipein = True, dev_speed = USB_SPEED_FULL,
              tt_hub_devnum = Some 2, urb_interval = 4, maxpacket = 64 \<rparr>"

section \<open>Properties\<close>

lemmas model_defs =
  dwc_otg_hcd_qh_add_def schedule_periodic_def qh_linked_def sched_entries_def
  dwc_qh_is_non_per_def periodic_channel_available_def check_periodic_bandwidth_def
  max_claimed_usecs_def check_max_xfer_size_def list_add_tail_def ENOSPC_def

lemmas ex_defs = ex_hcd_def ex_qh_def plain_header_def

subsection \<open>Admission\<close>

text \<open>The 16-bit cut of \<open>100 - usecs\<close> is the subtraction of 16-bit words.\<close>

lemma max_claimed_usecs_word:
  "max_claimed_usecs hcd qh =
     (if speed (core_params (core_if hcd)) = DWC_SPEED_PARAM_HIGH
      then 100 - usecs qh else 900 - usecs qh)"
  by (simp add: max_claimed_usecs_def)

text \<open>The three outcomes of \<open>schedule_periodic\<close>: a failed check returns \<open>- ENOSPC\<close> and
  the state it was given; with all checks passed the statistics update divides by the
  interval.\<close>

lemma schedule_periodic_cases:
  "schedule_periodic h hcd qh =
     (if periodic_channel_available hcd \<noteq> 0 \<or> check_periodic_bandwidth hcd qh \<noteq> 0 \<or>
         check_max_xfer_size h hcd qh \<noteq> 0
      then Inr (- ENOSPC, hcd)
      else if interval qh = 0 then Inl DivideByZero
      else Inr (0, hcd
        \<lparr> periodic_sched_inactive := periodic_sched_inactive hcd @ [qh_addr qh],
          periodic_usecs := periodic_usecs hcd + usecs qh,
          periodic_channels := periodic_channels hcd + 1,
          bandwidth_allocated := bandwidth_allocated hcd + uint (usecs qh) div uint (interval qh),
          bandwidth_int_reqs := (if ep_type qh = USB_ENDPOINT_XFER_INT
             then bandwidth_int_reqs hcd + 1 else bandwidth_int_reqs hcd),
          bandwidth_isoc_reqs := (if ep_type qh = USB_ENDPOINT_XFER_INT
             then bandwidth_isoc_reqs hcd else bandwidth_isoc_reqs hcd + 1) \<rparr>))"
  by (simp add: schedule_periodic_def periodic_channel_available_def
      check_periodic_bandwidth_def check_max_xfer_size_def list_add_tail_def Let_def)

lemma schedule_periodic_fail:
  "schedule_periodic h hcd qh = Inr (status, hcd') \<Longrightarrow> status \<noteq> 0 \<Longrightarrow> hcd' = hcd"
  by (auto simp: schedule_periodic_cases split: if_splits)

text \<open>
  Claim C1. For every queue head and every scheduler state: when
  \<open>dwc_otg_hcd_qh_add\<close> returns \<open>- ENOSPC\<close>, the HCD state after the call is the state
  before it. The counters \<open>periodic_channels\<close>, \<open>periodic_usecs\<close>,
  \<open>non_periodic_channels\<close> and the five schedule lists are fields of that state, so none
  of them has changed.
\<close>

theorem admit_failure_unchanged:
  assumes "dwc_otg_hcd_qh_add h hcd qh = Inr (status, hcd')" and "status = - ENOSPC"
  shows "hcd' = hcd"
  using assms
  by (auto simp: dwc_otg_hcd_qh_add_def ENOSPC_def split: if_splits dest: schedule_periodic_fail)

text \<open>Scenario 2 of the spec: 50 usecs are claimed, a queue head asking for 60 is refused.\<close>

theorem admit_failure_unchanged_witness:
  "dwc_otg_hcd_qh_add plain_header ex_hcd (ex_qh \<lparr> usecs := 60 \<rparr>) = Inr (- ENOSPC, ex_hcd)"
proof -
  have r: "dwc_otg_hcd_qh_add plain_header ex_hcd (ex_qh \<lparr> usecs := 60 \<rparr>)
           = Inr (- ENOSPC,
                  snd (projr (dwc_otg_hcd_qh_add plain_header ex_hcd (ex_qh \<lparr> usecs := 60 \<rparr>))))"
    by (simp add: model_defs ex_defs)
  from admit_failure_unchanged [OF r refl] r show ?thesis by simp
qed

text \<open>
  Claim C8. For every queue head that is already in one of the schedule lists,
  \<open>dwc_otg_hcd_qh_add\<close> returns 0 and the state it was given: no list gains an entry and
  neither \<open>periodic_channels\<close> nor \<open>periodic_usecs\<close> is counted a second time.
\<close>

theorem admit_idempotent:
  assumes "qh_linked hcd qh"
  shows "dwc_otg_hcd_qh_add h hcd qh = Inr (0, hcd)"
  using assms by (simp add: dwc_otg_hcd_qh_add_def)

theorem admit_idempotent_witness:
  "qh_linked ex_hcd (ex_qh \<lparr> qh_addr := 1 \<rparr>) \<and>
   dwc_otg_hcd_qh_add plain_header ex_hcd (ex_qh \<lparr> qh_addr := 1 \<rparr>) = Inr (0, ex_hcd)"
  using admit_idempotent [of ex_hcd "ex_qh \<lparr> qh_addr := 1 \<rparr>" plain_header]
  by (simp add: qh_linked_def sched_entries_def ex_defs)

text \<open>
  Claim C2. For every periodic queue head that is not in a schedule, with a channel
  available and an admissible maximum transfer size: \<open>max_claimed_usecs\<close> is
  \<open>100 - usecs\<close> on a high-speed controller and \<open>900 - usecs\<close> otherwise (16-bit
  subtraction, as the C variable is a \<^verbatim>\<open>uint16_t\<close>); admission returns \<open>- ENOSPC\<close> exactly
  when \<open>periodic_usecs\<close> is strictly greater than \<open>max_claimed_usecs\<close>; whenever admission
  returns 0, \<open>periodic_usecs\<close> has grown by \<open>usecs\<close> (16-bit addition); and admission does
  return 0 when the check passes and the interval is not zero.
\<close>

theorem bandwidth_check_admit:
  assumes "\<not> dwc_qh_is_non_per qh" and "\<not> qh_linked hcd qh"
    and "periodic_channel_available hcd = 0" and "check_max_xfer_size h hcd qh = 0"
  shows "max_claimed_usecs hcd qh =
           (if speed (core_params (core_if hcd)) = DWC_SPEED_PARAM_HIGH
            then 100 - usecs qh else 900 - usecs qh) \<and>
         ((\<exists>hcd'. dwc_otg_hcd_qh_add h hcd qh = Inr (- ENOSPC, hcd')) \<longleftrightarrow>
            periodic_usecs hcd > max_claimed_usecs hcd qh) \<and>
         (\<forall>hcd'. dwc_otg_hcd_qh_add h hcd qh = Inr (0, hcd') \<longrightarrow>
            periodic_usecs hcd' = periodic_usecs hcd + usecs qh) \<and>
         (\<not> periodic_usecs hcd > max_claimed_usecs hcd qh \<and> interval qh \<noteq> 0 \<longrightarrow>
            (\<exists>hcd'. dwc_otg_hcd_qh_add h hcd qh = Inr (0, hcd')))"
proof -
  have add: "dwc_otg_hcd_qh_add h hcd qh = schedule_periodic h hcd qh"
    using assms(1,2) by (simp add: dwc_otg_hcd_qh_add_def)
  have bw: "check_periodic_bandwidth hcd qh \<noteq> 0 \<longleftrightarrow> periodic_usecs hcd > max_claimed_usecs hcd qh"
    by (simp add: check_periodic_bandwidth_def ENOSPC_def)
  show ?thesis
    unfolding add schedule_periodic_cases
    using assms(3,4) bw
    by (auto simp: max_claimed_usecs_word ENOSPC_def)
qed

text \<open>With 50 usecs claimed, a queue head asking for 40 meets \<open>max_claimed_usecs = 60\<close>,
  is admitted, and the claim grows to 90.\<close>

theorem bandwidth_check_admit_witness:
  "\<not> dwc_qh_is_non_per ex_qh \<and> \<not> qh_linked ex_hcd ex_qh \<and>
   periodic_channel_available ex_hcd = 0 \<and> check_max_xfer_size plain_header ex_hcd ex_qh = 0 \<and>
   max_claimed_usecs ex_hcd ex_qh = 60 \<and> interval ex_qh \<noteq> 0 \<and>
   periodic_usecs (snd (projr (dwc_otg_hcd_qh_add plain_header ex_hcd ex_qh))) = 90"
  using bandwidth_check_admit [of ex_qh ex_hcd plain_header]
  by (simp add: model_defs ex_defs)

text \<open>Within the budget nothing wraps: for a queue head whose \<open>usecs\<close> is at most the
  budget constant, \<open>max_claimed_usecs\<close> is the difference of the numbers, the check passes
  exactly when \<open>periodic_usecs + usecs\<close> stays within the budget, and the sum a
  successful admission stores is the sum of the numbers.\<close>

lemma bandwidth_check_within_budget:
  assumes "budget = (if speed (core_params (core_if hcd)) = DWC_SPEED_PARAM_HIGH then 100 else 900)"
    and "unat (usecs qh) \<le> budget"
  shows "unat (max_claimed_usecs hcd qh) = budget - unat (usecs qh)"
    and "check_periodic_bandwidth hcd qh = 0 \<longleftrightarrow>
           unat (periodic_usecs hcd) + unat (usecs qh) \<le> budget"
    and "check_periodic_bandwidth hcd qh = 0 \<Longrightarrow>
           unat (periodic_usecs hcd + usecs qh) = unat (periodic_usecs hcd) + unat (usecs qh)"
proof -
  have le: "usecs qh \<le> (if speed (core_params (core_if hcd)) = DWC_SPEED_PARAM_HIGH then 100 else 900)"
    using assms by (simp add: word_le_nat_alt split: if_splits)
  show m: "unat (max_claimed_usecs hcd qh) = budget - unat (usecs qh)"
    using assms le by (simp add: max_claimed_usecs_word unat_sub split: if_splits)
  show c: "check_periodic_bandwidth hcd qh = 0 \<longleftrightarrow>
           unat (periodic_usecs hcd) + unat (usecs qh) \<le> budget"
    using m assms(2) by (auto simp: check_periodic_bandwidth_def ENOSPC_def word_less_nat_alt)
  show "unat (periodic_usecs hcd + usecs qh) = unat (periodic_usecs hcd) + unat (usecs qh)"
    if "check_periodic_bandwidth hcd qh = 0"
  proof -
    from that c have "unat (periodic_usecs hcd) + unat (usecs qh) \<le> budget" by simp
    with assms(1) have "unat (periodic_usecs hcd) + unat (usecs qh) < 65536"
      by (simp split: if_splits)
    then show ?thesis by (simp add: unat_word_ariths)
  qed
qed

text \<open>Beyond the budget the 16-bit subtraction wraps.\<close>

lemma unat_budget_sub:
  fixes u :: u16
  assumes "b < unat u" and "b < 65536"
  shows "unat (word_of_nat b - u) = 65536 + b - unat u"
proof -
  have "unat u < 2 ^ LENGTH(16)" by (rule unsigned_less)
  then have "unat u < 65536" by simp
  have "unat (word_of_nat b :: u16) = b" using assms(2) by (simp add: unat_of_nat)
  then show ?thesis using assms \<open>unat u < 65536\<close>
    by (simp add: unat_sub_if')
qed

text \<open>
  Claim C3, as amended. The subtraction is done in 16 bits: for a queue head whose
  \<open>usecs\<close> exceeds the budget constant (100 in high speed, 900 otherwise),
  \<open>max_claimed_usecs\<close> wraps to \<open>65536 + budget - usecs\<close>. The bandwidth check then passes
  exactly when \<open>periodic_usecs + usecs \<le> 65536 + budget\<close>, in particular whenever
  \<open>periodic_usecs\<close> itself is within the budget, and such a queue head is admitted when
  the other checks pass and its interval is not zero.
\<close>

theorem bandwidth_check_wraps:
  assumes "budget = (if speed (core_params (core_if hcd)) = DWC_SPEED_PARAM_HIGH then 100 else 900)"
    and "budget < unat (usecs qh)"
  shows "unat (max_claimed_usecs hcd qh) = 65536 + budget - unat (usecs qh) \<and>
         (check_periodic_bandwidth hcd qh = 0 \<longleftrightarrow>
            unat (periodic_usecs hcd) + unat (usecs qh) \<le> 65536 + budget) \<and>
         (unat (periodic_usecs hcd) \<le> budget \<longrightarrow> check_periodic_bandwidth hcd qh = 0) \<and>
         (\<not> dwc_qh_is_non_per qh \<and> \<not> qh_linked hcd qh \<and> periodic_channel_available hcd = 0 \<and>
          check_max_xfer_size h hcd qh = 0 \<and> interval qh \<noteq> 0 \<and>
          unat (periodic_usecs hcd) + unat (usecs qh) \<le> 65536 + budget \<longrightarrow>
            (\<exists>hcd'. dwc_otg_hcd_qh_add h hcd qh = Inr (0, hcd') \<and>
                    periodic_usecs hcd' = periodic_usecs hcd + usecs qh))"
proof -
  have "unat (usecs qh) < 2 ^ LENGTH(16)" by (rule unsigned_less)
  then have u: "unat (usecs qh) < 65536" by simp
  have m: "unat (max_claimed_usecs hcd qh) = 65536 + budget - unat (usecs qh)"
    using assms unat_budget_sub [of 100 "usecs qh"] unat_budget_sub [of 900 "usecs qh"]
    by (simp add: max_claimed_usecs_word split: if_splits)
  have c: "check_periodic_bandwidth hcd qh = 0 \<longleftrightarrow>
            unat (periodic_usecs hcd) + unat (usecs qh) \<le> 65536 + budget"
    using m u assms by (auto simp: check_periodic_bandwidth_def ENOSPC_def word_less_nat_alt)
  have d: "unat (periodic_usecs hcd) \<le> budget \<Longrightarrow> check_periodic_bandwidth hcd qh = 0"
    using c u by simp
  have e: "\<not> dwc_qh_is_non_per qh \<and> \<not> qh_linked hcd qh \<and> periodic_channel_available hcd = 0 \<and>
          check_max_xfer_size h hcd qh = 0 \<and> interval qh \<noteq> 0 \<and>
          unat (periodic_usecs hcd) + unat (usecs qh) \<le> 65536 + budget \<Longrightarrow>
            (\<exists>hcd'. dwc_otg_hcd_qh_add h hcd qh = Inr (0, hcd') \<and>
                    periodic_usecs hcd' = periodic_usecs hcd + usecs qh)"
    using c by (simp add: dwc_otg_hcd_qh_add_def schedule_periodic_cases)
  show ?thesis using m c d e by blast
qed

text \<open>A queue head asking for 200 usecs of a 100 usec budget is admitted on top of the 50
  already claimed: \<open>max_claimed_usecs\<close> is 65436.\<close>

theorem bandwidth_check_wraps_witness:
  "(100::nat) = (if speed (core_params (core_if ex_hcd)) = DWC_SPEED_PARAM_HIGH then 100 else 900) \<and>
   100 < unat (usecs (ex_qh \<lparr> usecs := 200 \<rparr>)) \<and>
   unat (periodic_usecs ex_hcd) \<le> 100 \<and>
   unat (max_claimed_usecs ex_hcd (ex_qh \<lparr> usecs := 200 \<rparr>)) = 65436 \<and>
   check_periodic_bandwidth ex_hcd (ex_qh \<lparr> usecs := 200 \<rparr>) = 0 \<and>
   fst (projr (dwc_otg_hcd_qh_add plain_header ex_hcd (ex_qh \<lparr> usecs := 200 \<rparr>))) = 0 \<and>
   periodic_usecs (snd (projr (dwc_otg_hcd_qh_add plain_header ex_hcd (ex_qh \<lparr> usecs := 200 \<rparr>))))
     = 250"
  using bandwidth_check_wraps [of 100 ex_hcd "ex_qh \<lparr> usecs := 200 \<rparr>" plain_header]
  by (simp add: model_defs ex_defs)

text \<open>The claim as stated, that for every such queue head the check does not trigger,
  fails once \<open>periodic_usecs\<close> is above the wrapped value: with 65500 usecs claimed the
  queue head asking for 200 is refused.\<close>

theorem bandwidth_check_wraps_counterexample:
  "100 < usecs (ex_qh \<lparr> usecs := 200 \<rparr>) \<and>
   speed (core_params (core_if (ex_hcd \<lparr> periodic_usecs := 65500 \<rparr>))) = DWC_SPEED_PARAM_HIGH \<and>
   max_claimed_usecs (ex_hcd \<lparr> periodic_usecs := 65500 \<rparr>) (ex_qh \<lparr> usecs := 200 \<rparr>) = 65436 \<and>
   check_periodic_bandwidth (ex_hcd \<lparr> periodic_usecs := 65500 \<rparr>) (ex_qh \<lparr> usecs := 200 \<rparr>)
     = - ENOSPC \<and>
   dwc_otg_hcd_qh_add plain_header (ex_hcd \<lparr> periodic_usecs := 65500 \<rparr>) (ex_qh \<lparr> usecs := 200 \<rparr>)
     = Inr (- ENOSPC, ex_hcd \<lparr> periodic_usecs := 65500 \<rparr>)"
  by (simp add: model_defs ex_defs)

text \<open>
  Claim C7. For every periodic queue head that is not in a schedule: unless both
  \<open>periodic_channels + non_periodic_channels < host_channels\<close> and
  \<open>periodic_channels < host_channels - 1\<close> hold, admission returns \<open>- ENOSPC\<close> (and the
  unchanged state); when both hold and the bandwidth and transfer-size checks pass,
  admission returns 0 with \<open>periodic_channels\<close> incremented by exactly one. The only
  inputs on which it does not return are those with a zero interval, where the
  statistics update divides by zero.
\<close>

theorem channel_check_admit:
  assumes "\<not> dwc_qh_is_non_per qh" and "\<not> qh_linked hcd qh"
  shows "(\<not> (periodic_channels hcd + non_periodic_channels hcd
               < host_channels (core_params (core_if hcd)) \<and>
             periodic_channels hcd < host_channels (core_params (core_if hcd)) - 1) \<longrightarrow>
            dwc_otg_hcd_qh_add h hcd qh = Inr (- ENOSPC, hcd)) \<and>
         (periodic_channels hcd + non_periodic_channels hcd
               < host_channels (core_params (core_if hcd)) \<and>
          periodic_channels hcd < host_channels (core_params (core_if hcd)) - 1 \<and>
          check_periodic_bandwidth hcd qh = 0 \<and> check_max_xfer_size h hcd qh = 0 \<longrightarrow>
            (if interval qh = 0 then dwc_otg_hcd_qh_add h hcd qh = Inl DivideByZero
             else \<exists>hcd'. dwc_otg_hcd_qh_add h hcd qh = Inr (0, hcd') \<and>
                    periodic_channels hcd' = periodic_channels hcd + 1))"
proof -
  have add: "dwc_otg_hcd_qh_add h hcd qh = schedule_periodic h hcd qh"
    using assms by (simp add: dwc_otg_hcd_qh_add_def)
  show ?thesis
    unfolding add schedule_periodic_cases
    by (simp add: periodic_channel_available_def ENOSPC_def Let_def)
qed

text \<open>One of eight channels is reserved: the queue head is admitted and two are. With
  seven channels in non-periodic use there is none left.\<close>

theorem channel_check_admit_witness:
  "\<not> dwc_qh_is_non_per ex_qh \<and> \<not> qh_linked ex_hcd ex_qh \<and>
   check_periodic_bandwidth ex_hcd ex_qh = 0 \<and> check_max_xfer_size plain_header ex_hcd ex_qh = 0 \<and>
   interval ex_qh \<noteq> 0 \<and>
   fst (projr (dwc_otg_hcd_qh_add plain_header ex_hcd ex_qh)) = 0 \<and>
   periodic_channels (snd (projr (dwc_otg_hcd_qh_add plain_header ex_hcd ex_qh))) = 2 \<and>
   \<not> qh_linked (ex_hcd \<lparr> non_periodic_channels := 7 \<rparr>) ex_qh \<and>
   dwc_otg_hcd_qh_add plain_header (ex_hcd \<lparr> non_periodic_channels := 7 \<rparr>) ex_qh
     = Inr (- ENOSPC, ex_hcd \<lparr> non_periodic_channels := 7 \<rparr>)"
  using channel_check_admit [of ex_qh ex_hcd plain_header]
    channel_check_admit [of ex_qh "ex_hcd \<lparr> non_periodic_channels := 7 \<rparr>" plain_header]
  by (simp add: model_defs ex_defs)

subsection \<open>Enqueue\<close>

text \<open>
  Claim C6. For a URB whose endpoint has no queue head yet (\<open>hcpriv\<close> is \<open>None\<close>), when
  the allocation of the queue head fails, \<open>dwc_otg_hcd_qtd_add\<close> leaves the HCD and the
  endpoint as they were, so the QTD is linked to no queue head, and returns 0: the
  failure does not reach the caller as an error value.
\<close>

theorem qtd_add_alloc_failure:
  assumes "hcpriv ep = None"
  shows "dwc_otg_hcd_qtd_add h None qtd hcd ep = Inr (0, hcd, ep)"
  using assms by (simp add: dwc_otg_hcd_qtd_add_def dwc_otg_hcd_qh_create_def)

theorem qtd_add_alloc_failure_witness:
  "hcpriv \<lparr> hcpriv = None \<rparr> = None \<and>
   dwc_otg_hcd_qtd_add plain_header None
     \<lparr> qtd_addr = 7, qtd_urb = \<lparr> pipetype = PIPE_INTERRUPT, pipein = True,
          dev_speed = USB_SPEED_FULL, tt_hub_devnum = None, urb_interval = 4,
          maxpacket = 64 \<rparr> \<rparr>
     ex_hcd \<lparr> hcpriv = None \<rparr>
   = Inr (0, ex_hcd, \<lparr> hcpriv = None \<rparr>)"
  using qtd_add_alloc_failure [of "\<lparr> hcpriv = None \<rparr>" plain_header _ ex_hcd]
  by simp

subsection \<open>Queue head creation\<close>

text \<open>
  Claim C9. For every interrupt or isochronous queue head: when the port runs at high
  speed and the device is low or full speed, \<open>dwc_otg_hcd_qh_init\<close> stores the interval
  of the URB multiplied by 8 (in the 16-bit field; without wrap-around for URB intervals
  below 8192), sets the low three bits of \<open>sched_frame\<close> to 1 on top of
  \<open>dwc_frame_num_inc(frame_number, 10)\<close>, and stores that \<open>sched_frame\<close> as
  \<open>start_split_frame\<close>. For every other combination the interval is the URB's and
  \<open>sched_frame\<close> is \<open>dwc_frame_num_inc(frame_number, 10)\<close> as computed.
\<close>

theorem qh_init_periodic:
  assumes "pipetype u = PIPE_INTERRUPT \<or> pipetype u = PIPE_ISOCHRONOUS"
  shows "(hprt0 (core_if hcd) = DWC_HPRT0_PRTSPD_HIGH_SPEED \<and>
          (dev_speed u = USB_SPEED_LOW \<or> dev_speed u = USB_SPEED_FULL) \<longrightarrow>
            interval (dwc_otg_hcd_qh_init h hcd a u) = word_of_int (urb_interval u) * 8 \<and>
            sched_frame (dwc_otg_hcd_qh_init h hcd a u)
              = dwc_frame_num_inc h (frame_number hcd) 10 OR 7 \<and>
            sched_frame (dwc_otg_hcd_qh_init h hcd a u) AND 7 = 7 \<and>
            start_split_frame (dwc_otg_hcd_qh_init h hcd a u)
              = sched_frame (dwc_otg_hcd_qh_init h hcd a u) \<and>
            (0 \<le> urb_interval u \<and> urb_interval u < 8192 \<longrightarrow>
               uint (interval (dwc_otg_hcd_qh_init h hcd a u)) = urb_interval u * 8)) \<and>
         (\<not> (hprt0 (core_if hcd) = DWC_HPRT0_PRTSPD_HIGH_SPEED \<and>
             (dev_speed u = USB_SPEED_LOW \<or> dev_speed u = USB_SPEED_FULL)) \<longrightarrow>
            interval (dwc_otg_hcd_qh_init h hcd a u) = word_of_int (urb_interval u) \<and>
            sched_frame (dwc_otg_hcd_qh_init h hcd a u)
              = dwc_frame_num_inc h (frame_number hcd) 10)"
proof -
  have or7: "(x OR 7) AND 7 = (7 :: u16)" for x :: u16
    by (simp add: bit_eq_iff bit_simps) 
  have nowrap: "0 \<le> i \<and> i < 8192 \<Longrightarrow> uint (word_of_int i * 8 :: u16) = i * 8" for i :: int
  proof -
    assume a: "0 \<le> i \<and> i < 8192"
    have "uint (word_of_int i :: u16) = i"
      using a by (simp add: uint_word_of_int take_bit_eq_mod)
    then have "uint (word_of_int i * 8 :: u16) = (i * 8) mod 65536"
      by (simp add: uint_word_ariths)
    then show ?thesis using a by simp
  qed
  show ?thesis
    using assms or7 nowrap
    by (auto simp: dwc_otg_hcd_qh_init_def qh_zero_def SCHEDULE_SLOP_def Let_def)
qed

text \<open>Scenario 6 of the spec: at frame 100 the interval 4 becomes 32 and the frame
  \<open>110\<close> becomes \<open>111\<close>; with the port at full speed they stay 4 and 110.\<close>

theorem qh_init_periodic_witness:
  "(pipetype ex_urb = PIPE_INTERRUPT \<or> pipetype ex_urb = PIPE_ISOCHRONOUS) \<and>
   hprt0 (core_if ex_hcd) = DWC_HPRT0_PRTSPD_HIGH_SPEED \<and> dev_speed ex_urb = USB_SPEED_FULL \<and>
   0 \<le> urb_interval ex_urb \<and> urb_interval ex_urb < 8192 \<and>
   interval (dwc_otg_hcd_qh_init plain_header ex_hcd 2 ex_urb) = 32 \<and>
   sched_frame (dwc_otg_hcd_qh_init plain_header ex_hcd 2 ex_urb) = 111 \<and>
   start_split_frame (dwc_otg_hcd_qh_init plain_header ex_hcd 2 ex_urb) = 111 \<and>
   hprt0 (core_if (ex_hcd \<lparr> core_if := (core_if ex_hcd) \<lparr> hprt0 := DWC_HPRT0_PRTSPD_FULL_SPEED \<rparr> \<rparr>))
     \<noteq> DWC_HPRT0_PRTSPD_HIGH_SPEED \<and>
   interval (dwc_otg_hcd_qh_init plain_header
      (ex_hcd \<lparr> core_if := (core_if ex_hcd) \<lparr> hprt0 := DWC_HPRT0_PRTSPD_FULL_SPEED \<rparr> \<rparr>) 2 ex_urb) = 4 \<and>
   sched_frame (dwc_otg_hcd_qh_init plain_header
      (ex_hcd \<lparr> core_if := (core_if ex_hcd) \<lparr> hprt0 := DWC_HPRT0_PRTSPD_FULL_SPEED \<rparr> \<rparr>) 2 ex_urb) = 110"
  using qh_init_periodic [of ex_urb ex_hcd plain_header 2]
    qh_init_periodic [of ex_urb
      "ex_hcd \<lparr> core_if := (core_if ex_hcd) \<lparr> hprt0 := DWC_HPRT0_PRTSPD_FULL_SPEED \<rparr> \<rparr>"
      plain_header 2]
  by (simp add: ex_urb_def ex_defs SCHEDULE_SLOP_def)

subsection \<open>Deactivation\<close>

lemmas deact_defs =
  dwc_otg_hcd_qh_deactivate_def next_sched_frame_def dwc_otg_hcd_qh_remove_def
  deschedule_periodic_def list_move_def list_add_def list_del_init_def

lemma next_sched_frame_fields:
  "qh_addr (next_sched_frame h frame qh s) = qh_addr qh"
  "qtd_list (next_sched_frame h frame qh s) = qtd_list qh"
  "interval (next_sched_frame h frame qh s) = interval qh"
  "usecs (next_sched_frame h frame qh s) = usecs qh"
  "ep_type (next_sched_frame h frame qh s) = ep_type qh"
  by (simp_all add: next_sched_frame_def Let_def)

lemma next_sched_frame_non_split:
  "do_split qh = 0 \<Longrightarrow>
   next_sched_frame h frame qh s =
     qh \<lparr> sched_frame :=
            (if dwc_frame_num_le h (dwc_frame_num_inc h (sched_frame qh) (interval qh)) frame
             then frame else dwc_frame_num_inc h (sched_frame qh) (interval qh)) \<rparr>"
  by (simp add: next_sched_frame_def Let_def)

lemma next_sched_frame_split_continue:
  "do_split qh \<noteq> 0 \<Longrightarrow> s \<noteq> 0 \<Longrightarrow>
   next_sched_frame h frame qh s =
     qh \<lparr> sched_frame :=
            (if dwc_frame_num_le h frame (dwc_frame_num_inc h (start_split_frame qh) 1) \<and>
                \<not> (ep_type qh = USB_ENDPOINT_XFER_ISOC \<and> ep_is_in qh = 0)
             then dwc_frame_num_inc h frame 1 else frame) \<rparr>"
  by (simp add: next_sched_frame_def Let_def)

lemma qh_linked_fields:
  "qh_addr qh' = qh_addr qh \<Longrightarrow> qh_linked hcd qh' = qh_linked hcd qh"
  by (simp add: qh_linked_def)

lemma dwc_qh_is_non_per_fields:
  "ep_type qh' = ep_type qh \<Longrightarrow> dwc_qh_is_non_per qh' = dwc_qh_is_non_per qh"
  by (simp add: dwc_qh_is_non_per_def)

text \<open>A periodic queue head that still holds QTDs is only moved between lists.\<close>

lemma deactivate_periodic_nonempty:
  assumes "\<not> dwc_qh_is_non_per qh" and "qtd_list qh \<noteq> []"
  shows "dwc_otg_hcd_qh_deactivate h hcd qh s =
           Inr (list_move (qh_addr qh)
                  (if sched_frame (next_sched_frame h (hfnum (core_if hcd)) qh s) = hfnum (core_if hcd)
                   then PeriodicReady else PeriodicInactive) hcd,
                next_sched_frame h (hfnum (core_if hcd)) qh s)"
  using assms
  by (simp add: dwc_otg_hcd_qh_deactivate_def Let_def next_sched_frame_fields)

text \<open>A periodic queue head without QTDs is withdrawn.\<close>

lemma deactivate_periodic_empty:
  assumes "\<not> dwc_qh_is_non_per qh" and "qtd_list qh = []"
  shows "dwc_otg_hcd_qh_deactivate h hcd qh s =
           (if \<not> qh_linked hcd qh
            then Inr (hcd, next_sched_frame h (hfnum (core_if hcd)) qh s)
            else case deschedule_periodic hcd qh of
                   Inl f \<Rightarrow> Inl f
                 | Inr hcd' \<Rightarrow> Inr (hcd', next_sched_frame h (hfnum (core_if hcd)) qh s))"
proof -
  let ?q = "next_sched_frame h (hfnum (core_if hcd)) qh s"
  have l: "qh_linked hcd ?q = qh_linked hcd qh"
    by (rule qh_linked_fields) (simp add: next_sched_frame_fields)
  have n: "dwc_qh_is_non_per ?q = dwc_qh_is_non_per qh"
    by (rule dwc_qh_is_non_per_fields) (simp add: next_sched_frame_fields)
  have d: "deschedule_periodic hcd ?q = deschedule_periodic hcd qh"
    by (simp add: deschedule_periodic_def next_sched_frame_fields Let_def)
  show ?thesis using assms
    by (simp add: dwc_otg_hcd_qh_deactivate_def Let_def next_sched_frame_fields
        dwc_otg_hcd_qh_remove_def l n d)
qed

lemma deschedule_periodic_cases:
  "deschedule_periodic hcd qh =
     (if interval qh = 0 then Inl DivideByZero
      else Inr (list_del_init (qh_addr qh) hcd
        \<lparr> periodic_usecs := periodic_usecs hcd - usecs qh,
          periodic_channels := periodic_channels hcd - 1,
          bandwidth_allocated := bandwidth_allocated hcd - uint (usecs qh) div uint (interval qh),
          bandwidth_int_reqs := (if ep_type qh = USB_ENDPOINT_XFER_INT
             then bandwidth_int_reqs hcd - 1 else bandwidth_int_reqs hcd),
          bandwidth_isoc_reqs := (if ep_type qh = USB_ENDPOINT_XFER_INT
             then bandwidth_isoc_reqs hcd else bandwidth_isoc_reqs hcd - 1) \<rparr>))"
  by (simp add: deschedule_periodic_def list_del_init_def Let_def)

text \<open>
  Claim C4, as amended. For every periodic queue head without split that still holds a
  QTD, deactivation returns, and the new \<open>sched_frame\<close> is
  \<open>dwc_frame_num_inc(sched_frame, interval)\<close>, replaced by the current frame number when
  \<open>dwc_frame_num_le\<close> places it at or before the current frame. When the two helpers are
  16-bit addition and \<open>\<le>\<close>, the new \<open>sched_frame\<close> is at least the current frame number,
  and it is at least the old \<open>sched_frame\<close> provided \<open>sched_frame + interval\<close> does not
  exceed 65535.
\<close>

theorem deactivate_non_split_frame:
  assumes "\<not> dwc_qh_is_non_per qh" and "do_split qh = 0" and "qtd_list qh \<noteq> []"
  shows "\<exists>hcd' qh'. dwc_otg_hcd_qh_deactivate h hcd qh s = Inr (hcd', qh') \<and>
           sched_frame qh' =
             (if dwc_frame_num_le h (dwc_frame_num_inc h (sched_frame qh) (interval qh))
                   (hfnum (core_if hcd))
              then hfnum (core_if hcd)
              else dwc_frame_num_inc h (sched_frame qh) (interval qh)) \<and>
           ((\<forall>f i. dwc_frame_num_inc h f i = f + i) \<and> (\<forall>f g. dwc_frame_num_le h f g = (f \<le> g)) \<longrightarrow>
              hfnum (core_if hcd) \<le> sched_frame qh' \<and>
              (unat (sched_frame qh) + unat (interval qh) < 65536 \<longrightarrow>
                 sched_frame qh \<le> sched_frame qh'))"
proof -
  let ?q = "next_sched_frame h (hfnum (core_if hcd)) qh s"
  have nowrap: "unat (sched_frame qh) + unat (interval qh) < 65536 \<Longrightarrow>
      sched_frame qh \<le> sched_frame qh + interval qh"
    by (simp add: word_le_nat_alt unat_word_ariths)
  have "sched_frame ?q =
             (if dwc_frame_num_le h (dwc_frame_num_inc h (sched_frame qh) (interval qh))
                   (hfnum (core_if hcd))
              then hfnum (core_if hcd)
              else dwc_frame_num_inc h (sched_frame qh) (interval qh))"
    using assms(2) by (simp add: next_sched_frame_non_split)
  moreover have "(\<forall>f i. dwc_frame_num_inc h f i = f + i) \<and> (\<forall>f g. dwc_frame_num_le h f g = (f \<le> g)) \<longrightarrow>
              hfnum (core_if hcd) \<le> sched_frame ?q \<and>
              (unat (sched_frame qh) + unat (interval qh) < 65536 \<longrightarrow>
                 sched_frame qh \<le> sched_frame ?q)"
    using assms(2) nowrap by (auto simp: next_sched_frame_non_split)
  ultimately show ?thesis
    using deactivate_periodic_nonempty [OF assms(1,3)] by blast
qed

text \<open>Scenario 3 of the spec: interval 4, \<open>sched_frame\<close> 100, deactivated at frame 100;
  the new \<open>sched_frame\<close> is 104 and the queue head goes to the inactive list.\<close>

theorem deactivate_non_split_frame_witness:
  "\<not> dwc_qh_is_non_per ex_qh \<and> do_split ex_qh = 0 \<and> qtd_list ex_qh \<noteq> [] \<and>
   unat (sched_frame ex_qh) + unat (interval ex_qh) < 65536 \<and>
   dwc_otg_hcd_qh_deactivate plain_header ex_hcd ex_qh 0
     = Inr (ex_hcd \<lparr> periodic_sched_inactive := [2, 1] \<rparr>, ex_qh \<lparr> sched_frame := 104 \<rparr>) \<and>
   hfnum (core_if ex_hcd) \<le> 104 \<and> sched_frame ex_qh \<le> 104"
proof -
  have h: "\<not> dwc_qh_is_non_per ex_qh" "do_split ex_qh = 0" "qtd_list ex_qh \<noteq> []"
    by (simp_all add: dwc_qh_is_non_per_def ex_defs)
  have p: "(\<forall>f i. dwc_frame_num_inc plain_header f i = f + i) \<and>
           (\<forall>f g. dwc_frame_num_le plain_header f g = (f \<le> g))"
    by (simp add: plain_header_def)
  have n: "unat (sched_frame ex_qh) + unat (interval ex_qh) < 65536"
    by (simp add: ex_defs)
  have r: "dwc_otg_hcd_qh_deactivate plain_header ex_hcd ex_qh 0
     = Inr (ex_hcd \<lparr> periodic_sched_inactive := [2, 1] \<rparr>, ex_qh \<lparr> sched_frame := 104 \<rparr>)"
    by (simp add: deact_defs dwc_qh_is_non_per_def ex_defs)
  from deactivate_non_split_frame [OF h, of plain_header ex_hcd 0] p n r
  have "hfnum (core_if ex_hcd) \<le> 104 \<and> sched_frame ex_qh \<le> 104"
    by simp
  with h n r show ?thesis by simp
qed

text \<open>The order part of the claim fails where the frame arithmetic wraps. With a
  \<open>sched_frame\<close> of \<open>0xFFFF\<close> and interval 1 at frame 100, the sum wraps to 0 and is clamped
  to 100, below the old value, for both instances of the helpers. On the 14-bit wheel a
  \<open>sched_frame\<close> of \<open>0x3FFE\<close> with interval 4 at frame \<open>0x3FFE\<close> becomes 2, below both the
  old value and the current frame number.\<close>

theorem deactivate_non_split_frame_counterexample:
  "\<not> dwc_qh_is_non_per (ex_qh \<lparr> sched_frame := 0xFFFF, interval := 1 \<rparr>) \<and>
   do_split (ex_qh \<lparr> sched_frame := 0xFFFF, interval := 1 \<rparr>) = 0 \<and>
   qtd_list (ex_qh \<lparr> sched_frame := 0xFFFF, interval := 1 \<rparr>) \<noteq> [] \<and>
   dwc_otg_hcd_qh_deactivate plain_header ex_hcd (ex_qh \<lparr> sched_frame := 0xFFFF, interval := 1 \<rparr>) 0
     = Inr (ex_hcd \<lparr> periodic_sched_ready := [2] \<rparr>, ex_qh \<lparr> sched_frame := 100, interval := 1 \<rparr>) \<and>
   dwc_otg_hcd_qh_deactivate wheel_header ex_hcd (ex_qh \<lparr> sched_frame := 0xFFFF, interval := 1 \<rparr>) 0
     = Inr (ex_hcd \<lparr> periodic_sched_ready := [2] \<rparr>, ex_qh \<lparr> sched_frame := 100, interval := 1 \<rparr>) \<and>
   \<not> (sched_frame (ex_qh \<lparr> sched_frame := 0xFFFF, interval := 1 \<rparr>) \<le> (100 :: u16)) \<and>
   dwc_otg_hcd_qh_deactivate wheel_header (ex_hcd \<lparr> core_if := (core_if ex_hcd) \<lparr> hfnum := 0x3FFE \<rparr> \<rparr>)
       (ex_qh \<lparr> sched_frame := 0x3FFE \<rparr>) 0
     = Inr (ex_hcd \<lparr> core_if := (core_if ex_hcd) \<lparr> hfnum := 0x3FFE \<rparr>,
                     periodic_sched_inactive := [2, 1] \<rparr>, ex_qh \<lparr> sched_frame := 2 \<rparr>) \<and>
   \<not> (hfnum (core_if (ex_hcd \<lparr> core_if := (core_if ex_hcd) \<lparr> hfnum := 0x3FFE \<rparr> \<rparr>)) \<le> (2 :: u16)) \<and>
   \<not> (sched_frame (ex_qh \<lparr> sched_frame := 0x3FFE \<rparr>) \<le> (2 :: u16))"
  by (simp add: deact_defs dwc_qh_is_non_per_def ex_defs wheel_header_def)

text \<open>
  Claim C5. For every periodic queue head with \<open>do_split\<close> set, deactivated with
  \<open>sched_next_periodic_split\<close> set: \<open>sched_frame\<close> becomes the current frame number,
  advanced by one frame when the current frame is within one frame of
  \<open>start_split_frame\<close> (\<open>dwc_frame_num_le(frame, dwc_frame_num_inc(start_split_frame, 1))\<close>)
  unless the queue head is an isochronous OUT endpoint; \<open>start_split_frame\<close> is
  unchanged. Deactivation returns on every input except a linked queue head with an
  empty QTD list and a zero interval, whose withdrawal divides by zero.
\<close>

theorem deactivate_split_continue:
  assumes "\<not> dwc_qh_is_non_per qh" and "do_split qh \<noteq> 0" and "s \<noteq> 0"
  shows "if qtd_list qh = [] \<and> qh_linked hcd qh \<and> interval qh = 0
         then dwc_otg_hcd_qh_deactivate h hcd qh s = Inl DivideByZero
         else \<exists>hcd' qh'. dwc_otg_hcd_qh_deactivate h hcd qh s = Inr (hcd', qh') \<and>
                sched_frame qh' =
                  (if dwc_frame_num_le h (hfnum (core_if hcd))
                        (dwc_frame_num_inc h (start_split_frame qh) 1) \<and>
                      \<not> (ep_type qh = USB_ENDPOINT_XFER_ISOC \<and> ep_is_in qh = 0)
                   then dwc_frame_num_inc h (hfnum (core_if hcd)) 1
                   else hfnum (core_if hcd)) \<and>
                start_split_frame qh' = start_split_frame qh"
proof (cases "qtd_list qh = []")
  case True
  show ?thesis
    using assms(2,3) True
    by (simp add: deactivate_periodic_empty [OF assms(1) True] deschedule_periodic_cases
        next_sched_frame_split_continue)
next
  case False
  show ?thesis
    using assms(2,3) False
    by (simp add: deactivate_periodic_nonempty [OF assms(1) False]
        next_sched_frame_split_continue)
qed

text \<open>At frame 100, one frame after the start split of frame 99, an interrupt IN
  queue head is scheduled for frame 101.\<close>

theorem deactivate_split_continue_witness:
  "\<not> dwc_qh_is_non_per (ex_qh \<lparr> do_split := 1, start_split_frame := 99 \<rparr>) \<and>
   do_split (ex_qh \<lparr> do_split := 1, start_split_frame := 99 \<rparr>) \<noteq> 0 \<and> (1::int) \<noteq> 0 \<and>
   qtd_list (ex_qh \<lparr> do_split := 1, start_split_frame := 99 \<rparr>) \<noteq> [] \<and>
   dwc_frame_num_le plain_header (hfnum (core_if ex_hcd)) (dwc_frame_num_inc plain_header 99 1) \<and>
   sched_frame (snd (projr (dwc_otg_hcd_qh_deactivate plain_header ex_hcd
      (ex_qh \<lparr> do_split := 1, start_split_frame := 99 \<rparr>) 1))) = 101 \<and>
   start_split_frame (snd (projr (dwc_otg_hcd_qh_deactivate plain_header ex_hcd
      (ex_qh \<lparr> do_split := 1, start_split_frame := 99 \<rparr>) 1))) = 99"
  using deactivate_split_continue
    [of "ex_qh \<lparr> do_split := 1, start_split_frame := 99 \<rparr>" 1 ex_hcd plain_header]
  by (simp add: deact_defs dwc_qh_is_non_per_def ex_defs)

text \<open>Unlinking undoes \<^verbatim>\<open>list_add_tail\<close>, and \<open>deschedule_periodic\<close> undoes
  \<open>schedule_periodic\<close>.\<close>

lemma list_del_init_unlinked:
  "a \<notin> set (sched_entries hcd) \<Longrightarrow> list_del_init a hcd = hcd"
  by (simp add: list_del_init_def sched_entries_def)

lemma list_del_init_not_linked:
  "a \<notin> set (sched_entries (list_del_init a hcd))"
  by (simp add: list_del_init_def sched_entries_def)

lemma list_del_init_add_tail:
  "a \<notin> set (sched_entries hcd) \<Longrightarrow> list_del_init a (list_add_tail a l hcd) = hcd"
  by (cases l) (simp_all add: list_del_init_def list_add_tail_def sched_entries_def)

lemma deschedule_schedule:
  assumes "\<not> qh_linked hcd0 qh" and "schedule_periodic h hcd0 qh = Inr (0, hcd)"
  shows "deschedule_periodic hcd qh = Inr hcd0"
proof -
  have a: "qh_addr qh \<notin> set (sched_entries hcd0)"
    using assms(1) by (simp add: qh_linked_def)
  have i: "interval qh \<noteq> 0"
    using assms(2) by (auto simp: schedule_periodic_cases ENOSPC_def split: if_splits)
  have d: "list_del_init (qh_addr qh) (list_add_tail (qh_addr qh) PeriodicInactive hcd0) = hcd0"
    using a by (rule list_del_init_add_tail)
  have "removeAll (qh_addr qh) (periodic_sched_inactive hcd0 @ [qh_addr qh])
          = periodic_sched_inactive hcd0"
    using a by (simp add: sched_entries_def)
  then show ?thesis
    using assms(2) i a
    by (auto simp: schedule_periodic_cases deschedule_periodic_cases ENOSPC_def
        list_del_init_def sched_entries_def split: if_splits)
qed

text \<open>
  Claim C10. For every periodic queue head that is in a schedule list and whose QTD
  list is empty, deactivation removes it from all five lists, decrements
  \<open>periodic_channels\<close> by one and decreases \<open>periodic_usecs\<close> by its \<open>usecs\<close> (it does not
  return only if the interval is zero, which no admitted queue head has); and when the
  state is the one a successful admission of this queue head produced, deactivation
  gives back the state before that admission.
\<close>

theorem deactivate_empty_withdraws:
  assumes "\<not> dwc_qh_is_non_per qh" and "qtd_list qh = []" and "qh_linked hcd qh"
  shows "(if interval qh = 0 then dwc_otg_hcd_qh_deactivate h hcd qh s = Inl DivideByZero
          else \<exists>hcd' qh'. dwc_otg_hcd_qh_deactivate h hcd qh s = Inr (hcd', qh') \<and>
                 qh_addr qh' = qh_addr qh \<and> usecs qh' = usecs qh \<and>
                 qh_addr qh \<notin> set (sched_entries hcd') \<and>
                 periodic_channels hcd' = periodic_channels hcd - 1 \<and>
                 periodic_usecs hcd' = periodic_usecs hcd - usecs qh) \<and>
         (\<forall>hcd0. \<not> qh_linked hcd0 qh \<and> dwc_otg_hcd_qh_add h hcd0 qh = Inr (0, hcd) \<longrightarrow>
            (\<exists>qh'. dwc_otg_hcd_qh_deactivate h hcd qh s = Inr (hcd0, qh')))"
proof -
  have e: "qh_addr qh \<notin> set (sched_entries (list_del_init (qh_addr qh) hcd
        \<lparr> periodic_usecs := pu, periodic_channels := pc, bandwidth_allocated := ba,
          bandwidth_int_reqs := bi, bandwidth_isoc_reqs := bs \<rparr>))" for pu pc ba bi bs
    by (simp add: list_del_init_def sched_entries_def)
  have first: "if interval qh = 0 then dwc_otg_hcd_qh_deactivate h hcd qh s = Inl DivideByZero
          else \<exists>hcd' qh'. dwc_otg_hcd_qh_deactivate h hcd qh s = Inr (hcd', qh') \<and>
                 qh_addr qh' = qh_addr qh \<and> usecs qh' = usecs qh \<and>
                 qh_addr qh \<notin> set (sched_entries hcd') \<and>
                 periodic_channels hcd' = periodic_channels hcd - 1 \<and>
                 periodic_usecs hcd' = periodic_usecs hcd - usecs qh"
    using assms(3) e
    by (simp add: deactivate_periodic_empty [OF assms(1,2)] deschedule_periodic_cases
        next_sched_frame_fields list_del_init_def)
  have second: "\<exists>qh'. dwc_otg_hcd_qh_deactivate h hcd qh s = Inr (hcd0, qh')"
    if "\<not> qh_linked hcd0 qh \<and> dwc_otg_hcd_qh_add h hcd0 qh = Inr (0, hcd)" for hcd0
  proof -
    from that assms(1) have "schedule_periodic h hcd0 qh = Inr (0, hcd)"
      by (auto simp: dwc_otg_hcd_qh_add_def)
    with that have "deschedule_periodic hcd qh = Inr hcd0"
      by (simp add: deschedule_schedule)
    then show ?thesis
      using assms(3) by (simp add: deactivate_periodic_empty [OF assms(1,2)])
  qed
  from first second show ?thesis by blast
qed

text \<open>Scenario 5 of the spec: the queue head at address 1 (50 usecs) is withdrawn; the
  lists are empty and the counters are 0 again, the state from which admitting it gives
  the example state.\<close>

theorem deactivate_empty_withdraws_witness:
  "\<not> dwc_qh_is_non_per (ex_qh \<lparr> qh_addr := 1, usecs := 50, qtd_list := [] \<rparr>) \<and>
   qtd_list (ex_qh \<lparr> qh_addr := 1, usecs := 50, qtd_list := [] \<rparr>) = [] \<and>
   qh_linked ex_hcd (ex_qh \<lparr> qh_addr := 1, usecs := 50, qtd_list := [] \<rparr>) \<and>
   interval (ex_qh \<lparr> qh_addr := 1, usecs := 50, qtd_list := [] \<rparr>) \<noteq> 0 \<and>
   dwc_otg_hcd_qh_deactivate plain_header ex_hcd
      (ex_qh \<lparr> qh_addr := 1, usecs := 50, qtd_list := [] \<rparr>) 0
     = Inr (ex_hcd \<lparr> periodic_sched_inactive := [], periodic_usecs := 0, periodic_channels := 0,
                     bandwidth_allocated := 0, bandwidth_int_reqs := 0 \<rparr>,
            ex_qh \<lparr> qh_addr := 1, usecs := 50, qtd_list := [], sched_frame := 104 \<rparr>) \<and>
   dwc_otg_hcd_qh_add plain_header
      (ex_hcd \<lparr> periodic_sched_inactive := [], periodic_usecs := 0, periodic_channels := 0,
                bandwidth_allocated := 0, bandwidth_int_reqs := 0 \<rparr>)
      (ex_qh \<lparr> qh_addr := 1, usecs := 50, qtd_list := [] \<rparr>)
     = Inr (0, ex_hcd)"
proof -
  let ?q = "ex_qh \<lparr> qh_addr := 1, usecs := 50, qtd_list := [] \<rparr>"
  let ?h0 = "ex_hcd \<lparr> periodic_sched_inactive := [], periodic_usecs := 0, periodic_channels := 0,
                bandwidth_allocated := 0, bandwidth_int_reqs := 0 \<rparr>"
  have h: "\<not> dwc_qh_is_non_per ?q" "qtd_list ?q = []" "qh_linked ex_hcd ?q"
    by (simp_all add: dwc_qh_is_non_per_def qh_linked_def sched_entries_def ex_defs)
  have i: "interval ?q \<noteq> 0" by (simp add: ex_defs)
  have u: "\<not> qh_linked ?h0 ?q" by (simp add: qh_linked_def sched_entries_def ex_defs)
  have a: "dwc_otg_hcd_qh_add plain_header ?h0 ?q = Inr (0, ex_hcd)"
    by (simp add: model_defs ex_defs)
  from deactivate_empty_withdraws [OF h, of plain_header 0] u a
  obtain qh' where d: "dwc_otg_hcd_qh_deactivate plain_header ex_hcd ?q 0 = Inr (?h0, qh')"
    by blast
  have "snd (projr (dwc_otg_hcd_qh_deactivate plain_header ex_hcd ?q 0))
          = ?q \<lparr> sched_frame := 104 \<rparr>"
    by (simp add: deact_defs dwc_qh_is_non_per_def qh_linked_def sched_entries_def ex_defs)
  with d have "dwc_otg_hcd_qh_deactivate plain_header ex_hcd ?q 0
                 = Inr (?h0, ?q \<lparr> sched_frame := 104 \<rparr>)"
    by simp
  with h i a show ?thesis by simp
qed

end
